theory Spec2Isabelle
  imports Complex_Main
begin

section \<open>Python values and reading bundles\<close>

text \<open>
  The dashboards receive their readings as Python dictionaries whose values are whatever the
  data source delivered: numbers, strings, \<open>None\<close>, lists, nested dictionaries.  A finite Python
  float is a rational number and Python compares numbers exactly, so a float is modelled by
  its real value; NaN and the infinities are not modelled.  A dictionary is an association
  list read with \<open>map_of\<close>.
\<close>

datatype pyval =
    PNone
  | PBool bool
  | PInt int
  | PFloat real
  | PStr string
  | PList "pyval list"
  | PDict "(string \<times> pyval) list"

type_synonym pydict = "(string \<times> pyval) list"

datatype py_error = TypeError | KeyError

text \<open>\<open>bool(v)\<close>: the truth value Python gives a value in an \<open>if\<close>.\<close>

fun truthy :: "pyval \<Rightarrow> bool" where
  "truthy PNone = False"
| "truthy (PBool b) = b"
| "truthy (PInt i) = (i \<noteq> 0)"
| "truthy (PFloat r) = (r \<noteq> 0)"
| "truthy (PStr s) = (s \<noteq> [])"
| "truthy (PList l) = (l \<noteq> [])"
| "truthy (PDict d) = (d \<noteq> [])"

text \<open>
  \<open>isinstance(v, (int, float))\<close> together with the number it is: \<open>bool\<close> is a subclass
  of \<open>int\<close> in Python, so \<open>True\<close> and \<open>False\<close> pass the test as 1 and 0.
\<close>

fun num_of :: "pyval \<Rightarrow> real option" where
  "num_of (PBool b) = Some (if b then 1 else 0)"
| "num_of (PInt i) = Some (of_int i)"
| "num_of (PFloat r) = Some r"
| "num_of PNone = None"
| "num_of (PStr s) = None"
| "num_of (PList l) = None"
| "num_of (PDict d) = None"

text \<open>\<open>d.get(k, default)\<close> and \<open>d.get(k)\<close>.\<close>

definition get_default :: "pydict \<Rightarrow> string \<Rightarrow> pyval \<Rightarrow> pyval" where
  "get_default d k dflt = (case map_of d k of None \<Rightarrow> dflt | Some v \<Rightarrow> v)"

definition get_none :: "pydict \<Rightarrow> string \<Rightarrow> pyval" where
  "get_none d k = get_default d k PNone"

text \<open>
  An ordering comparison or a subtraction between a value and a number literal raises
  \<open>TypeError\<close> unless the value is a number.
\<close>

definition as_number :: "pyval \<Rightarrow> py_error + real" where
  "as_number v = (case num_of v of None \<Rightarrow> Inl TypeError | Some r \<Rightarrow> Inr r)"

text \<open>
  \<open>v[k]\<close> with a string key: a dictionary without the key raises \<open>KeyError\<close>, and a
  value that is not a dictionary raises \<open>TypeError\<close>.
\<close>

definition subscript :: "pyval \<Rightarrow> string \<Rightarrow> py_error + pyval" where
  "subscript v k =
     (case v of
        PDict d \<Rightarrow> (case map_of d k of None \<Rightarrow> Inl KeyError | Some x \<Rightarrow> Inr x)
      | _ \<Rightarrow> Inl TypeError)"

section \<open>What the views hand to the rendering libraries\<close>

text \<open>
  An f-string is kept as its pieces: the literal text and the interpolated values, in order.
  How a number is printed is not modelled.  Literals are written without the emoji and the
  other non-ASCII characters of the source.
\<close>

datatype frag = Lit string | Val pyval | Num real

type_synonym ftext = "frag list"

datatype axis_val = AxNum real | AxStr string | AxDate int

datatype trace =
    Scatter "axis_val list" "real list" string string
  | Bar "axis_val list" "real list" string string "real option"
  | Line "axis_val list" "real list"
  | Pie "real list" "string list"

datatype hline = HLine real string string string

record figure =
  traces :: "trace list"
  fig_title :: string
  axis_titles :: "(string \<times> string) option"
  hlines :: "hline list"

type_synonym dataframe = "(string \<times> pyval list) list"

datatype df_view =
    Plain dataframe
  | Styled dataframe "(string \<times> string list) list"
  | Indexed string dataframe

datatype icon = Icon string string string

datatype child =
    TileLayer string string "string option" bool bool
  | LayerControl
  | Marker "pyval \<times> pyval" ftext ftext icon
  | CircleMarker "real \<times> real" real ftext ftext string string real "real option"
  | HeatMap "(real \<times> real \<times> real) list" string real real "(real \<times> string) list"

record folium_map =
  location :: "real \<times> real"
  zoom_start :: int
  tiles :: string
  children :: "child list"

datatype st_call =
    StSubheader ftext
  | StInfo ftext
  | StWrite ftext
  | StWarning ftext
  | StSuccess ftext
  | StError ftext
  | StMetric ftext ftext "ftext option"
  | StColumns nat
  | StDataframe df_view
  | StPlotlyChart figure
  | StFolium folium_map nat nat
  | SidebarSubheader ftext
  | SidebarWrite ftext

section \<open>components/dashboard.py\<close>

subsection \<open>render_citizens_dashboard\<close>

definition very_hot_advice :: st_call where
  "very_hot_advice =
     StWarning [Lit ''Very hot day! Stay hydrated and avoid outdoor activities during peak hours.'']"

definition cool_advice :: st_call where
  "cool_advice = StInfo [Lit ''Cool day! You might want to carry a light jacket.'']"

definition pleasant_advice :: st_call where
  "pleasant_advice = StSuccess [Lit ''Pleasant weather for outdoor activities!'']"

definition good_air_advice :: st_call where
  "good_air_advice = StSuccess [Lit ''Good air quality - safe for outdoor activities!'']"

definition moderate_air_advice :: st_call where
  "moderate_air_advice =
     StWarning [Lit ''Moderate air quality - sensitive individuals should limit outdoor activities.'']"

definition poor_air_advice :: st_call where
  "poor_air_advice =
     StError [Lit ''Poor air quality - wear masks outdoors and limit exposure!'']"

text \<open>The first column: the three weather lines and the comfort recommendation.\<close>

definition citizens_weather :: "pydict option \<Rightarrow> st_call list" where
  "citizens_weather weather_data =
     (case weather_data of
        None \<Rightarrow> []
      | Some wd \<Rightarrow>
          if wd = [] then []
          else
            let temp = get_default wd ''temperature_2m'' (PStr ''N/A'');
                feels_like = get_default wd ''apparent_temperature'' (PStr ''N/A'');
                humidity = get_default wd ''relative_humidity_2m'' (PStr ''N/A'')
            in [StWrite [Lit ''**Temperature:** '', Val temp, Lit ''C''],
                StWrite [Lit ''**Feels like:** '', Val feels_like, Lit ''C''],
                StWrite [Lit ''**Humidity:** '', Val humidity, Lit ''%'']] @
               (case num_of temp of
                  None \<Rightarrow> []
                | Some t \<Rightarrow>
                    if t > 35 then [very_hot_advice]
                    else if t < 15 then [cool_advice]
                    else [pleasant_advice]))"

text \<open>The second column: the PM2.5 line and the air-quality advisory.\<close>

definition citizens_air :: "pydict option \<Rightarrow> st_call list" where
  "citizens_air air_quality_data =
     (case air_quality_data of
        None \<Rightarrow> []
      | Some aq \<Rightarrow>
          if aq = [] then []
          else
            let pm25 = get_default aq ''pm2_5'' (PStr ''N/A'')
            in (case num_of pm25 of
                  None \<Rightarrow> []
                | Some p \<Rightarrow>
                    [StWrite [Lit ''**PM2.5:** '', Val pm25, Lit '' ug/m3'']] @
                    (if p \<le> 25 then [good_air_advice]
                     else if p \<le> 50 then [moderate_air_advice]
                     else [poor_air_advice])))"

text \<open>The list \<open>recommendations\<close> built under "Health Recommendations".\<close>

definition heat_recommendations :: "pydict option \<Rightarrow> string list" where
  "heat_recommendations weather_data =
     (case weather_data of
        None \<Rightarrow> []
      | Some wd \<Rightarrow>
          if wd = [] then []
          else (case num_of (get_none wd ''temperature_2m'') of
                  None \<Rightarrow> []
                | Some t \<Rightarrow>
                    if t \<noteq> 0 \<and> t > 35
                    then [''Drink plenty of water throughout the day'',
                          ''Wear light-colored, loose-fitting clothes'',
                          ''Avoid outdoor activities between 11 AM - 4 PM'']
                    else []))"

definition air_recommendations :: "pydict option \<Rightarrow> string list" where
  "air_recommendations air_quality_data =
     (case air_quality_data of
        None \<Rightarrow> []
      | Some aq \<Rightarrow>
          if aq = [] then []
          else (case num_of (get_none aq ''pm2_5'') of
                  None \<Rightarrow> []
                | Some p \<Rightarrow>
                    if p \<noteq> 0 \<and> p > 25
                    then [''Wear N95 masks when outdoors'',
                          ''Keep windows closed during high pollution hours'',
                          ''Consider indoor exercises instead of outdoor jogging'']
                    else []))"

definition render_citizens_dashboard :: "pydict option \<Rightarrow> pydict option \<Rightarrow> st_call list" where
  "render_citizens_dashboard weather_data air_quality_data =
     [StInfo [Lit ''**For Citizens**: Daily life climate information and health advisories''],
      StColumns 2,
      StSubheader [Lit ''Today's Weather'']] @
     citizens_weather weather_data @
     [StSubheader [Lit ''Air Quality'']] @
     citizens_air air_quality_data @
     [StSubheader [Lit ''Health Recommendations'']] @
     (let recommendations =
            heat_recommendations weather_data @ air_recommendations air_quality_data
      in map (\<lambda>rec. StWrite [Lit ''* '', Lit rec]) recommendations @
         (if recommendations = []
          then [StWrite [Lit ''* Great conditions today! Enjoy outdoor activities safely.'']]
          else []))"

subsection \<open>render_bbmp_dashboard\<close>

definition pressure_data :: dataframe where
  "pressure_data =
     [(''Zone'', map PStr [''Electronic City'', ''Whitefield'', ''Sarjapur Road'',
                          ''North Bengaluru'', ''Outer Ring Road'']),
      (''Development Intensity'', map PInt [85, 78, 92, 45, 67]),
      (''Heat Risk'', map PStr [''Very High'', ''High'', ''Very High'', ''Low'', ''Medium'']),
      (''Green Space %'', map PInt [12, 18, 8, 35, 22])]"

definition render_bbmp_dashboard ::
  "pydict option \<Rightarrow> pydict option \<Rightarrow> pydict option \<Rightarrow> st_call list" where
  "render_bbmp_dashboard weather_data air_quality_data nasa_data =
     [StInfo [Lit ''**For BBMP**: Urban planning insights and city development guidance''],
      StSubheader [Lit ''Urban Heat Island Monitoring''],
      StColumns 3,
      StMetric [Lit ''Heat Island Intensity''] [Lit ''3.2C'']
        (Some [Lit ''0.5C from last month'']),
      StMetric [Lit ''Critical Heat Zones''] [Lit ''4 areas''] (Some [Lit ''1 new zone'']),
      StMetric [Lit ''Green Cover Impact''] [Lit ''-2.1C'']
        (Some [Lit ''In parks & tree-lined areas'']),
      StSubheader [Lit ''Development Pressure Indicators''],
      StDataframe (Plain pressure_data),
      StSubheader [Lit ''Planning Recommendations''],
      StWrite [Lit ''**Immediate Actions:**''],
      StWrite [Lit ''* Mandate 20% green space in new developments in Electronic City''],
      StWrite [Lit ''* Implement cool roof policies in high heat zones''],
      StWrite [Lit ''* Create green corridors connecting existing parks''],
      StWrite [Lit ''**Long-term Strategy:**''],
      StWrite [Lit ''* Develop satellite city centers to reduce central density''],
      StWrite [Lit ''* Increase tree canopy coverage to 30% city-wide''],
      StWrite [Lit ''* Implement building height restrictions in heat island zones'']]"

subsection \<open>render_water_board_dashboard\<close>

text \<open>
  The view reads the clock (\<open>datetime.now()\<close>), so the clock is an argument of the model.
  Time is counted in whole days since 1970-01-01, a Thursday; the Sundays are the days
  congruent to 3 modulo 7.  \<open>pd.date_range(start, end, freq='W')\<close> of the pandas library
  lists the Sundays from \<open>start\<close> to \<open>end\<close>, both included.
\<close>

definition date_range_W :: "int \<Rightarrow> int \<Rightarrow> int list" where
  "date_range_W start end_day =
     (let first = start + (3 - start) mod 7
      in if first \<le> end_day
         then map (\<lambda>k. first + 7 * int k) [0 ..< nat ((end_day - first) div 7 + 1)]
         else [])"

definition health_scores :: "int list" where
  "health_scores = [45, 78, 82, 67, 59]"

definition lakes_data :: dataframe where
  "lakes_data =
     [(''Lake'', map PStr [''Bellandur'', ''Ulsoor'', ''Sankey Tank'', ''Hebbal'', ''Madivala'']),
      (''Health Score'', map PInt health_scores),
      (''Water Quality'', map PStr [''Critical'', ''Good'', ''Excellent'', ''Fair'', ''Poor'']),
      (''Algal Bloom Risk'', map PStr [''High'', ''Low'', ''Very Low'', ''Medium'', ''High'']),
      (''Action Required'',
         map PStr [''Immediate'', ''Monitor'', ''Maintain'', ''Improve'', ''Urgent''])]"

definition color_health_score :: "real \<Rightarrow> string" where
  "color_health_score val =
     (if val \<ge> 70 then ''background-color: #90EE90''
      else if val \<ge> 50 then ''background-color: #FFD700''
      else ''background-color: #FFB6C1'')"

definition lake_trends :: "int \<Rightarrow> figure" where
  "lake_trends now =
     (let dates = date_range_W (now - 90) now;
          bellandur_trend = map (\<lambda>i. 45 + (int i mod 5) - 2) [0 ..< length dates];
          ulsoor_trend = map (\<lambda>i. 78 + (int i mod 3) - 1) [0 ..< length dates]
      in \<lparr>traces =
            [Scatter (map AxDate dates) (map of_int bellandur_trend) ''Bellandur Lake'' ''red'',
             Scatter (map AxDate dates) (map of_int ulsoor_trend) ''Ulsoor Lake'' ''blue''],
          fig_title = ''Lake Health Trends (90 Days)'',
          axis_titles = Some (''Date'', ''Health Score''),
          hlines = []\<rparr>)"

definition render_water_board_dashboard ::
  "int \<Rightarrow> pydict option \<Rightarrow> pydict option \<Rightarrow> st_call list" where
  "render_water_board_dashboard now weather_data nasa_data =
     [StInfo [Lit ''**For BWSSB**: Water resource management and lake health monitoring''],
      StSubheader [Lit ''Lake Health Status''],
      StDataframe
        (Styled lakes_data
           [(''Health Score'', map (\<lambda>v. color_health_score (of_int v)) health_scores)]),
      StSubheader [Lit ''Water Quality Trends''],
      StPlotlyChart (lake_trends now),
      StSubheader [Lit ''Priority Action Items''],
      StError [Lit (''**Critical**: Bellandur Lake requires immediate intervention - '' @
                    ''sewage treatment upgrade needed'')],
      StWarning [Lit (''**Monitor**: Madivala Lake showing declining trends - '' @
                      ''investigate pollution sources'')],
      StSuccess [Lit ''**Success**: Sankey Tank maintenance program showing positive results'']]"

subsection \<open>render_electricity_dashboard\<close>

text \<open>
  The first column.  \<open>temp > 30\<close> raises \<open>TypeError\<close> when the stored reading is not a
  number; the value of a view that raises is the exception alone.
\<close>

definition electricity_conditions :: "pydict option \<Rightarrow> py_error + st_call list" where
  "electricity_conditions weather_data =
     (case weather_data of
        None \<Rightarrow> Inr []
      | Some wd \<Rightarrow>
          if wd = [] then Inr []
          else
            let temp = get_default wd ''temperature_2m'' (PInt 25)
            in (case as_number temp of
                  Inl e \<Rightarrow> Inl e
                | Inr t \<Rightarrow>
                    Inr (StMetric [Lit ''Current Temperature''] [Val temp, Lit ''C''] None #
                         (if t > 30
                          then let cooling_demand = min 100 ((t - 25) * 20)
                               in [StMetric [Lit ''Cooling Demand''] [Num cooling_demand, Lit ''%'']
                                     (Some [Lit ''High''])]
                          else [StMetric [Lit ''Cooling Demand''] [Lit ''Low'']
                                  (Some [Lit ''Stable''])]))))"

definition hours :: "axis_val list" where
  "hours = map (\<lambda>h. AxNum (real h)) [0 ..< 24]"

definition base_demand :: "real list" where
  "base_demand = [1800, 1650, 1500, 1400, 1350, 1400, 1600, 1900, 2200, 2400,
                  2600, 2750, 2850, 2900, 2850, 2700, 2500, 2300, 2100, 2000,
                  1950, 1900, 1850, 1800]"

text \<open>
  The float arithmetic of the adjustment is modelled by exact arithmetic on the reals;
  \<open>0.02\<close> is the real number 2/100.
\<close>

definition temp_factor :: "real \<Rightarrow> real" where
  "temp_factor temp = (if temp \<noteq> 0 then max 1.0 (1.0 + (temp - 25) * 0.02) else 1.0)"

definition adjusted_demand :: "pydict option \<Rightarrow> real list" where
  "adjusted_demand weather_data =
     (case weather_data of
        None \<Rightarrow> base_demand
      | Some wd \<Rightarrow>
          if wd = [] then base_demand
          else (case num_of (get_none wd ''temperature_2m'') of
                  None \<Rightarrow> base_demand
                | Some temp \<Rightarrow> map (\<lambda>d. d * temp_factor temp) base_demand))"

definition render_electricity_dashboard :: "pydict option \<Rightarrow> py_error + st_call list" where
  "render_electricity_dashboard weather_data =
     (case electricity_conditions weather_data of
        Inl e \<Rightarrow> Inl e
      | Inr col1 \<Rightarrow>
          Inr ([StInfo [Lit ''**For BESCOM**: Power demand forecasting and grid management''],
                StColumns 3] @
               col1 @
               [StMetric [Lit ''Predicted Peak Load''] [Lit ''2,850 MW'']
                  (Some [Lit ''12% vs yesterday'']),
                StMetric [Lit ''Grid Stress Level''] [Lit ''Moderate'']
                  (Some [Lit ''Monitor closely'']),
                StSubheader [Lit ''24-Hour Demand Forecast''],
                StPlotlyChart
                  \<lparr>traces = [Line hours (adjusted_demand weather_data)],
                   fig_title = ''24-Hour Power Demand Forecast'',
                   axis_titles = Some (''Hour of Day'', ''Demand (MW)''),
                   hlines = [HLine 2500 ''dash'' ''red'' ''Peak Alert Threshold'']\<rparr>,
                StSubheader [Lit ''Grid Management Recommendations''],
                StWrite [Lit ''**Immediate Actions:**''],
                StWrite [Lit ''* Prepare backup power sources for afternoon peak (2-4 PM)''],
                StWrite [Lit ''* Issue power conservation advisory to industrial users''],
                StWrite [Lit ''* Monitor transformer temperatures in high-demand areas'']]))"

subsection \<open>render_parks_dashboard\<close>

definition parks_data :: dataframe where
  "parks_data =
     [(''Park Name'', map PStr [''Cubbon Park'', ''Lalbagh'', ''Bannerghatta'', ''Freedom Park'',
                               ''Jayamahal Park'']),
      (''Area (acres)'', [PInt 300, PInt 240, PInt 104, PFloat 2.5, PFloat 4.2]),
      (''Visitor Count'', map PInt [5420, 3890, 2150, 890, 340]),
      (''Tree Health'', map PInt [85, 82, 78, 71, 69]),
      (''Cooling Effect'', map PStr [''-2.1C'', ''-1.8C'', ''-1.5C'', ''-0.8C'', ''-0.6C''])]"

definition quarters :: "axis_val list" where
  "quarters = map AxStr [''Q1 2024'', ''Q2 2024'', ''Q3 2024'', ''Q4 2024 (Target)'']"

definition render_parks_dashboard :: "pydict option \<Rightarrow> pydict option \<Rightarrow> st_call list" where
  "render_parks_dashboard weather_data nasa_data =
     [StInfo [Lit ''**For Parks Department**: Green space management and urban forestry''],
      StColumns 4,
      StMetric [Lit ''City Green Cover''] [Lit ''18.2%''] (Some [Lit ''1.2% vs last year'']),
      StMetric [Lit ''Tree Canopy''] [Lit ''12.8%''] (Some [Lit ''0.3% improvement'']),
      StMetric [Lit ''Park Visitor Count''] [Lit ''15,420''] (Some [Lit ''8% this week'']),
      StMetric [Lit ''Tree Health Index''] [Lit ''76/100''] (Some [Lit ''Stable'']),
      StSubheader [Lit ''Park Performance Dashboard''],
      StDataframe (Plain parks_data),
      StSubheader [Lit ''Tree Plantation Progress''],
      StColumns 2,
      StPlotlyChart
        \<lparr>traces = [Bar quarters [2840, 3150, 2960, 3500] ''Trees Planted'' ''green'' None,
                   Bar quarters [3000, 3200, 3100, 3500] ''Target'' ''lightgreen'' (Some 0.5)],
         fig_title = ''Quarterly Tree Plantation Progress'',
         axis_titles = None,
         hlines = []\<rparr>,
      StPlotlyChart
        \<lparr>traces = [Pie [890, 1240, 780, 650, 420, 980]
                     [''Banyan'', ''Neem'', ''Gulmohar'', ''Rain Tree'', ''Tamarind'', ''Others'']],
         fig_title = ''Tree Species Distribution'',
         axis_titles = None,
         hlines = []\<rparr>]"

subsection \<open>render_research_dashboard\<close>

definition correlation_data :: dataframe where
  "correlation_data =
     [(''Metric'', map PStr [''Temperature'', ''Humidity'', ''PM2.5'', ''Green Cover'',
                            ''Lake Health'']),
      (''Temperature'', map PFloat [1.0, -0.45, 0.23, -0.78, -0.34]),
      (''Humidity'', map PFloat [-0.45, 1.0, -0.12, 0.56, 0.67]),
      (''PM2.5'', map PFloat [0.23, -0.12, 1.0, -0.45, -0.23]),
      (''Green Cover'', map PFloat [-0.78, 0.56, -0.45, 1.0, 0.45]),
      (''Lake Health'', map PFloat [-0.34, 0.67, -0.23, 0.45, 1.0])]"

definition render_research_dashboard ::
  "pydict option \<Rightarrow> pydict option \<Rightarrow> pydict option \<Rightarrow> st_call list" where
  "render_research_dashboard weather_data air_quality_data nasa_data =
     [StInfo [Lit ''**For Researchers**: Comprehensive climate data analysis and trends''],
      StSubheader [Lit ''Data Quality Assessment''],
      StColumns 3,
      StMetric [Lit ''Weather Data Quality''] [Lit ''98.5%''] (Some [Lit ''High reliability'']),
      StMetric [Lit ''Satellite Data Coverage''] [Lit ''94.2%''] (Some [Lit ''Good coverage'']),
      StMetric [Lit ''Air Quality Sensors''] [Lit ''12 active''] (Some [Lit ''2 new stations'']),
      StSubheader [Lit ''Key Research Findings''],
      StWrite [Lit ''**Climate Patterns:**''],
      StWrite [Lit ''* Urban heat island intensity has increased 15% over 5 years''],
      StWrite [Lit ''* Green spaces provide 2-3C cooling benefit consistently''],
      StWrite [Lit ''* Air quality shows seasonal variation with monsoon improvement''],
      StWrite [Lit ''**Correlations Discovered:**''],
      StWrite [Lit (''* Strong negative correlation (-0.78) between green cover and '' @
                    ''surface temperature'')],
      StWrite [Lit ''* PM2.5 levels increase 40% during construction season''],
      StWrite [Lit ''* Lake health directly impacts local humidity levels''],
      StSubheader [Lit ''Advanced Analytics''],
      StWrite [Lit ''**Correlation Matrix:**''],
      StDataframe (Indexed ''Metric'' correlation_data),
      StSubheader [Lit ''Research Recommendations''],
      StWrite [Lit ''**Priority Research Areas:**''],
      StWrite [Lit ''* Quantify economic impact of urban heat islands''],
      StWrite [Lit ''* Study effectiveness of different cooling interventions''],
      StWrite [Lit ''* Develop predictive models for air quality forecasting''],
      StWrite [Lit ''* Assess climate change adaptation strategies'']]"

subsection \<open>render_dashboard\<close>

text \<open>
  The view of a stakeholder: the header, then the calls of the stakeholder's dashboard.  A
  stakeholder string outside the six named ones gets the header alone.
\<close>

definition stakeholder_view ::
  "int \<Rightarrow> string \<Rightarrow> pydict option \<Rightarrow> pydict option \<Rightarrow> pydict option
     \<Rightarrow> py_error + st_call list" where
  "stakeholder_view now stakeholder weather_data air_quality_data nasa_data =
     (if stakeholder = ''Citizens''
      then Inr (render_citizens_dashboard weather_data air_quality_data)
      else if stakeholder = ''BBMP (City Planning)''
      then Inr (render_bbmp_dashboard weather_data air_quality_data nasa_data)
      else if stakeholder = ''BWSSB (Water Board)''
      then Inr (render_water_board_dashboard now weather_data nasa_data)
      else if stakeholder = ''BESCOM (Electricity)''
      then render_electricity_dashboard weather_data
      else if stakeholder = ''Parks Department''
      then Inr (render_parks_dashboard weather_data nasa_data)
      else if stakeholder = ''Researchers''
      then Inr (render_research_dashboard weather_data air_quality_data nasa_data)
      else Inr [])"

definition render_dashboard ::
  "int \<Rightarrow> string \<Rightarrow> pydict option \<Rightarrow> pydict option \<Rightarrow> pydict option
     \<Rightarrow> py_error + st_call list" where
  "render_dashboard now stakeholder weather_data air_quality_data nasa_data =
     (case stakeholder_view now stakeholder weather_data air_quality_data nasa_data of
        Inl e \<Rightarrow> Inl e
      | Inr calls \<Rightarrow> Inr (StSubheader [Lit ''Dashboard for '', Val (PStr stakeholder)] # calls))"

section \<open>utils/map_utils.py\<close>

text \<open>
  A folium map is its settings and the children added to it, in order; \<open>add_to\<close> appends
  one.  A marker keeps its location, popup, tooltip and icon; the markup and the white space
  of a popup's HTML template are left out, its labels and interpolated values are kept.
  folium's own validation of a location is not modelled.
\<close>

definition add_to :: "child \<Rightarrow> folium_map \<Rightarrow> folium_map" where
  "add_to c m = m\<lparr>children := children m @ [c]\<rparr>"

definition create_base_map :: "real \<Rightarrow> real \<Rightarrow> int \<Rightarrow> folium_map" where
  "create_base_map lat lon zoom =
     (let m = \<lparr>location = (lat, lon), zoom_start = zoom, tiles = ''OpenStreetMap'',
                children = []\<rparr>;
          m = add_to
                (TileLayer
                   (''https://server.arcgisonline.com/ArcGIS/rest/services/World_Imagery/'' @
                    ''MapServer/tile/{z}/{y}/{x}'')
                   ''Satellite'' (Some ''Esri'') False True) m;
          m = add_to (TileLayer ''CartoDB positron'' ''Light Map'' None False True) m;
          m = add_to LayerControl m
      in m)"

subsection \<open>add_weather_markers\<close>

definition weather_marker :: "pydict option \<Rightarrow> py_error + child list" where
  "weather_marker weather_data =
     (case weather_data of
        None \<Rightarrow> Inr []
      | Some wd \<Rightarrow>
          if wd = [] \<or> \<not> truthy (get_none wd ''location'') then Inr []
          else
            let location = get_none wd ''location'';
                popup_content =
                  [Lit ''Current Conditions'',
                   Lit ''Temperature: '', Val (get_default wd ''temperature_2m'' (PStr ''N/A'')),
                   Lit ''C'',
                   Lit ''Feels like: '',
                   Val (get_default wd ''apparent_temperature'' (PStr ''N/A'')), Lit ''C'',
                   Lit ''Humidity: '',
                   Val (get_default wd ''relative_humidity_2m'' (PStr ''N/A'')), Lit ''%'',
                   Lit ''Wind: '', Val (get_default wd ''wind_speed_10m'' (PStr ''N/A'')),
                   Lit '' km/h'']
            in (case subscript location ''lat'' of
                  Inl e \<Rightarrow> Inl e
                | Inr la \<Rightarrow>
                    (case subscript location ''lon'' of
                       Inl e \<Rightarrow> Inl e
                     | Inr lo \<Rightarrow>
                         Inr [Marker (la, lo) popup_content [Lit ''Weather Station'']
                                (Icon ''blue'' ''thermometer-half'' ''fa'')])))"

text \<open>The colour and the status of the air-quality marker.\<close>

definition marker_quality :: "real \<Rightarrow> string \<times> string" where
  "marker_quality pm25 =
     (if pm25 \<le> 12 then (''green'', ''Good'')
      else if pm25 \<le> 35 then (''orange'', ''Moderate'')
      else (''red'', ''Unhealthy''))"

definition air_quality_marker :: "pydict option \<Rightarrow> py_error + child list" where
  "air_quality_marker air_quality_data =
     (case air_quality_data of
        None \<Rightarrow> Inr []
      | Some aq \<Rightarrow>
          if aq = [] \<or> \<not> truthy (get_none aq ''location'') then Inr []
          else
            let location = get_none aq ''location'';
                pm25 = get_default aq ''pm2_5'' (PInt 0)
            in (case as_number pm25 of
                  Inl e \<Rightarrow> Inl e
                | Inr p \<Rightarrow>
                    let (color, quality) = marker_quality p;
                        popup_content =
                          [Lit ''Air Quality'',
                           Lit ''PM2.5: '', Val pm25, Lit '' ug/m3'',
                           Lit ''PM10: '', Val (get_default aq ''pm10'' (PStr ''N/A'')),
                           Lit '' ug/m3'',
                           Lit ''NO2: '',
                           Val (get_default aq ''nitrogen_dioxide'' (PStr ''N/A'')),
                           Lit '' ug/m3'',
                           Lit ''Status: '', Lit color, Lit quality]
                    in (case subscript location ''lat'' of
                          Inl e \<Rightarrow> Inl e
                        | Inr la \<Rightarrow>
                            (case subscript location ''lon'' of
                               Inl e \<Rightarrow> Inl e
                             | Inr lo \<Rightarrow>
                                 Inr [Marker (la, lo) popup_content
                                        [Lit ''Air Quality: '', Lit quality]
                                        (Icon color ''wind'' ''fa'')]))))"

definition add_weather_markers ::
  "folium_map \<Rightarrow> pydict option \<Rightarrow> pydict option \<Rightarrow> py_error + folium_map" where
  "add_weather_markers m weather_data air_quality_data =
     (case weather_marker weather_data of
        Inl e \<Rightarrow> Inl e
      | Inr ws \<Rightarrow>
          (case air_quality_marker air_quality_data of
             Inl e \<Rightarrow> Inl e
           | Inr as \<Rightarrow> Inr (foldl (\<lambda>m c. add_to c m) m (ws @ as))))"

subsection \<open>add_heat_island_layer\<close>

text \<open>
  \<open>heat_data\<close>, when given, maps \<open>hotspots\<close> and \<open>cooling_zones\<close> to lists of spots;
  a spot is kept as its latitude, longitude and intensity (or cooling).
\<close>

type_synonym spot = "real \<times> real \<times> real"

definition dict_get_list :: "(string \<times> spot list) list \<Rightarrow> string \<Rightarrow> spot list" where
  "dict_get_list d k = (case map_of d k of None \<Rightarrow> [] | Some l \<Rightarrow> l)"

definition default_heat_spots :: "spot list" where
  "default_heat_spots =
     [(12.845, 77.661, 4.2), (12.970, 77.750, 3.8), (12.935, 77.610, 3.1),
      (12.904, 77.600, 2.9)]"

definition default_cooling_zones :: "spot list" where
  "default_cooling_zones = [(12.976, 77.590, -2.1), (12.950, 77.584, -1.8), (12.976, 77.625, -1.3)]"

definition heat_spot_marker :: "spot \<Rightarrow> child" where
  "heat_spot_marker spot =
     (case spot of (la, lo, i) \<Rightarrow>
        CircleMarker (la, lo) 10 [Lit ''Heat Island: +'', Num i, Lit ''C'']
          [Lit ''Heat Island Hotspot''] ''red'' ''red'' 0.6 None)"

definition cooling_zone_marker :: "spot \<Rightarrow> child" where
  "cooling_zone_marker zone =
     (case zone of (la, lo, c) \<Rightarrow>
        CircleMarker (la, lo) 8 [Lit ''Cooling Zone: -'', Num c, Lit ''C'']
          [Lit ''Cooling Zone''] ''blue'' ''lightblue'' 0.6 None)"

definition add_heat_island_layer ::
  "folium_map \<Rightarrow> (string \<times> spot list) list option \<Rightarrow> folium_map" where
  "add_heat_island_layer m heat_data =
     (let (heat_spots, cooling_zones) =
            (case heat_data of
               None \<Rightarrow> (default_heat_spots, default_cooling_zones)
             | Some hdict \<Rightarrow>
                 if hdict = [] then (default_heat_spots, default_cooling_zones)
                 else (dict_get_list hdict ''hotspots'',
                       map (\<lambda>(la, lo, c). (la, lo, \<bar>c\<bar>)) (dict_get_list hdict ''cooling_zones'')));
          m = (if heat_spots \<noteq> []
               then add_to
                      (HeatMap heat_spots ''Heat Islands'' 20 15
                         [(0.2, ''blue''), (0.4, ''lime''), (0.6, ''orange''), (1, ''red'')]) m
               else m);
          m = foldl (\<lambda>m spot. add_to (heat_spot_marker spot) m) m heat_spots;
          m = foldl (\<lambda>m zone. add_to (cooling_zone_marker zone) m) m cooling_zones
      in m)"

subsection \<open>add_water_bodies\<close>

record poi =
  poi_name :: string
  poi_lat :: real
  poi_lon :: real

record lake = poi +
  health :: real

definition lakes :: "lake list" where
  "lakes =
     [\<lparr>poi_name = ''Bellandur Lake'', poi_lat = 12.926, poi_lon = 77.675, health = 45\<rparr>,
      \<lparr>poi_name = ''Ulsoor Lake'', poi_lat = 12.976, poi_lon = 77.625, health = 78\<rparr>,
      \<lparr>poi_name = ''Sankey Tank'', poi_lat = 12.991, poi_lon = 77.567, health = 82\<rparr>,
      \<lparr>poi_name = ''Hebbal Lake'', poi_lat = 13.036, poi_lon = 77.597, health = 67\<rparr>,
      \<lparr>poi_name = ''Madivala Lake'', poi_lat = 12.925, poi_lon = 77.623, health = 59\<rparr>]"

text \<open>The colour and the status of a lake, from its health score.\<close>

definition lake_status :: "real \<Rightarrow> string \<times> string" where
  "lake_status h =
     (if h \<ge> 70 then (''green'', ''Good'')
      else if h \<ge> 50 then (''orange'', ''Fair'')
      else (''red'', ''Poor''))"

definition lake_marker :: "lake \<Rightarrow> child" where
  "lake_marker lake =
     (let (color, status) = lake_status (health lake);
          popup_content =
            [Lit (poi_name lake), Lit ''Health Score: '', Num (health lake), Lit ''/100'',
             Lit ''Status: '', Lit color, Lit status]
      in Marker (PFloat (poi_lat lake), PFloat (poi_lon lake)) popup_content [Lit (poi_name lake)]
           (Icon color ''tint'' ''fa''))"

definition add_water_bodies :: "folium_map \<Rightarrow> folium_map" where
  "add_water_bodies m = foldl (\<lambda>m lake. add_to (lake_marker lake) m) m lakes"

subsection \<open>add_urban_growth_markers\<close>

record area = poi +
  poi_type :: string

definition development_areas :: "area list" where
  "development_areas =
     [\<lparr>poi_name = ''Electronic City Phase 2'', poi_lat = 12.835, poi_lon = 77.675, poi_type = ''IT Hub''\<rparr>,
      \<lparr>poi_name = ''Whitefield Extension'', poi_lat = 12.975, poi_lon = 77.760, poi_type = ''Residential''\<rparr>,
      \<lparr>poi_name = ''Sarjapur Road Corridor'', poi_lat = 12.905, poi_lon = 77.700,
       poi_type = ''Mixed Development''\<rparr>,
      \<lparr>poi_name = ''North Bengaluru'', poi_lat = 13.050, poi_lon = 77.580, poi_type = ''Residential''\<rparr>]"

text \<open>A lookup table read with \<open>.get(key, default)\<close>.\<close>

definition table_get :: "(string \<times> 'a) list \<Rightarrow> string \<Rightarrow> 'a \<Rightarrow> 'a" where
  "table_get t k dflt = (case map_of t k of None \<Rightarrow> dflt | Some v \<Rightarrow> v)"

definition growth_marker :: "area \<Rightarrow> child" where
  "growth_marker area =
     (let icon_color =
            table_get [(''IT Hub'', ''purple''), (''Residential'', ''blue''),
                       (''Mixed Development'', ''orange'')] (poi_type area) ''gray'';
          popup_content =
            [Lit (poi_name area), Lit ''Type: '', Lit (poi_type area),
             Lit ''Status: Under Development'']
      in Marker (PFloat (poi_lat area), PFloat (poi_lon area)) popup_content [Lit (poi_name area)]
           (Icon icon_color ''building'' ''fa''))"

definition add_urban_growth_markers :: "folium_map \<Rightarrow> folium_map" where
  "add_urban_growth_markers m =
     foldl (\<lambda>m area. add_to (growth_marker area) m) m development_areas"

subsection \<open>add_air_quality_zones\<close>

record station = poi +
  pm25 :: real

definition stations :: "station list" where
  "stations =
     [\<lparr>poi_name = ''City Railway Station'', poi_lat = 12.977, poi_lon = 77.571, pm25 = 45\<rparr>,
      \<lparr>poi_name = ''BTM Layout'', poi_lat = 12.912, poi_lon = 77.610, pm25 = 52\<rparr>,
      \<lparr>poi_name = ''Whitefield'', poi_lat = 12.970, poi_lon = 77.750, pm25 = 38\<rparr>,
      \<lparr>poi_name = ''Electronic City'', poi_lat = 12.845, poi_lon = 77.661, pm25 = 67\<rparr>,
      \<lparr>poi_name = ''Jayanagar'', poi_lat = 12.926, poi_lon = 77.583, pm25 = 41\<rparr>]"

text \<open>The colour and the status of a monitoring station, from its PM2.5 value.\<close>

definition zone_status :: "real \<Rightarrow> string \<times> string" where
  "zone_status p =
     (if p \<le> 25 then (''green'', ''Good'')
      else if p \<le> 50 then (''orange'', ''Moderate'')
      else (''red'', ''Unhealthy''))"

definition zone_marker :: "station \<Rightarrow> child" where
  "zone_marker station =
     (let (color, status) = zone_status (pm25 station);
          popup_content =
            [Lit (poi_name station), Lit ''PM2.5: '', Num (pm25 station), Lit '' ug/m3'',
             Lit ''Status: '', Lit color, Lit status]
      in CircleMarker (poi_lat station, poi_lon station) 12 popup_content
           [Lit (poi_name station), Lit '': '', Lit status] color color 0.7 None)"

definition add_air_quality_zones :: "folium_map \<Rightarrow> pydict option \<Rightarrow> folium_map" where
  "add_air_quality_zones m air_quality_data =
     foldl (\<lambda>m station. add_to (zone_marker station) m) m stations"

section \<open>components/maps.py\<close>

subsection \<open>The point-of-interest layers\<close>

text \<open>\<open>str.title()\<close> on ASCII text: every run of letters starts with a capital.\<close>

definition is_alpha :: "char \<Rightarrow> bool" where
  "is_alpha c =
     (let n = (of_char c :: nat) in (65 \<le> n \<and> n \<le> 90) \<or> (97 \<le> n \<and> n \<le> 122))"

definition to_upper :: "char \<Rightarrow> char" where
  "to_upper c = (let n = (of_char c :: nat) in if 97 \<le> n \<and> n \<le> 122 then char_of (n - 32) else c)"

definition to_lower :: "char \<Rightarrow> char" where
  "to_lower c = (let n = (of_char c :: nat) in if 65 \<le> n \<and> n \<le> 90 then char_of (n + 32) else c)"

fun title_from :: "bool \<Rightarrow> string \<Rightarrow> string" where
  "title_from inside [] = []"
| "title_from inside (c # cs) =
     (if is_alpha c then (if inside then to_lower c else to_upper c) # title_from True cs
      else c # title_from False cs)"

definition title :: "string \<Rightarrow> string" where
  "title s = title_from False s"

definition landmarks :: "area list" where
  "landmarks =
     [\<lparr>poi_name = ''Vidhana Soudha'', poi_lat = 12.979, poi_lon = 77.590,
       poi_type = ''government''\<rparr>,
      \<lparr>poi_name = ''Bangalore Palace'', poi_lat = 12.998, poi_lon = 77.592,
       poi_type = ''heritage''\<rparr>,
      \<lparr>poi_name = ''UB City Mall'', poi_lat = 12.972, poi_lon = 77.595,
       poi_type = ''commercial''\<rparr>,
      \<lparr>poi_name = ''Kempegowda Airport'', poi_lat = 13.199, poi_lon = 77.706,
       poi_type = ''transport''\<rparr>,
      \<lparr>poi_name = ''Majestic Bus Station'', poi_lat = 12.977, poi_lon = 77.571,
       poi_type = ''transport''\<rparr>]"

definition icon_map :: "(string \<times> string \<times> string) list" where
  "icon_map =
     [(''government'', (''purple'', ''university'')),
      (''heritage'', (''darkred'', ''monument'')),
      (''commercial'', (''orange'', ''shopping-cart'')),
      (''transport'', (''blue'', ''plane''))]"

definition landmark_marker :: "area \<Rightarrow> child" where
  "landmark_marker landmark =
     (let (color, icon_name) = table_get icon_map (poi_type landmark) (''gray'', ''info-sign'')
      in Marker (PFloat (poi_lat landmark), PFloat (poi_lon landmark))
           [Lit (poi_name landmark), Lit ''Type: '', Lit (title (poi_type landmark))]
           [Lit (poi_name landmark)] (Icon color icon_name ''fa''))"

definition add_city_landmarks :: "folium_map \<Rightarrow> folium_map" where
  "add_city_landmarks m = foldl (\<lambda>m landmark. add_to (landmark_marker landmark) m) m landmarks"

record temp_station = poi +
  temp :: real

definition temperature_stations :: "temp_station list" where
  "temperature_stations =
     [\<lparr>poi_name = ''HAL Airport'', poi_lat = 12.960, poi_lon = 77.644, temp = 28.5\<rparr>,
      \<lparr>poi_name = ''IISC Campus'', poi_lat = 13.021, poi_lon = 77.566, temp = 26.8\<rparr>,
      \<lparr>poi_name = ''Electronic City'', poi_lat = 12.845, poi_lon = 77.661, temp = 32.1\<rparr>,
      \<lparr>poi_name = ''Whitefield'', poi_lat = 12.970, poi_lon = 77.750, temp = 31.4\<rparr>]"

definition temperature_marker :: "temp_station \<Rightarrow> child" where
  "temperature_marker station =
     (let color = (if temp station > 30 then ''red''
                   else if temp station > 28 then ''orange''
                   else ''green'')
      in CircleMarker (poi_lat station, poi_lon station) 8
           [Lit (poi_name station), Lit ''Temperature: '', Num (temp station), Lit ''C'']
           [Lit (poi_name station), Lit '': '', Num (temp station), Lit ''C'']
           color color 0.7 None)"

definition add_temperature_stations :: "folium_map \<Rightarrow> folium_map" where
  "add_temperature_stations m =
     foldl (\<lambda>m station. add_to (temperature_marker station) m) m temperature_stations"

record monitoring_point = poi +
  quality :: string

definition monitoring_points :: "monitoring_point list" where
  "monitoring_points =
     [\<lparr>poi_name = ''Bellandur Inlet'', poi_lat = 12.930, poi_lon = 77.670, quality = ''Poor''\<rparr>,
      \<lparr>poi_name = ''Bellandur Outlet'', poi_lat = 12.922, poi_lon = 77.680,
       quality = ''Very Poor''\<rparr>,
      \<lparr>poi_name = ''Ulsoor Lake Center'', poi_lat = 12.976, poi_lon = 77.625,
       quality = ''Good''\<rparr>,
      \<lparr>poi_name = ''Sankey Tank Inlet'', poi_lat = 12.993, poi_lon = 77.565,
       quality = ''Excellent''\<rparr>,
      \<lparr>poi_name = ''Hebbal Lake'', poi_lat = 13.036, poi_lon = 77.597, quality = ''Fair''\<rparr>]"

definition quality_colors :: "(string \<times> string) list" where
  "quality_colors =
     [(''Excellent'', ''darkgreen''), (''Good'', ''green''), (''Fair'', ''orange''),
      (''Poor'', ''red''), (''Very Poor'', ''darkred'')]"

definition water_quality_marker :: "monitoring_point \<Rightarrow> child" where
  "water_quality_marker point =
     (let color = table_get quality_colors (quality point) ''gray''
      in Marker (PFloat (poi_lat point), PFloat (poi_lon point))
           [Lit (poi_name point), Lit ''Water Quality: '', Lit (quality point)]
           [Lit ''Water Quality: '', Lit (quality point)] (Icon color ''tint'' ''fa''))"

definition add_water_quality_stations :: "folium_map \<Rightarrow> folium_map" where
  "add_water_quality_stations m =
     foldl (\<lambda>m point. add_to (water_quality_marker point) m) m monitoring_points"

definition pollution_sources :: "area list" where
  "pollution_sources =
     [\<lparr>poi_name = ''Industrial Area - Peenya'', poi_lat = 13.030, poi_lon = 77.520,
       poi_type = ''Industrial''\<rparr>,
      \<lparr>poi_name = ''Traffic Junction - Silk Board'', poi_lat = 12.918, poi_lon = 77.623,
       poi_type = ''Traffic''\<rparr>,
      \<lparr>poi_name = ''Construction Zone - Outer Ring Road'', poi_lat = 12.935, poi_lon = 77.692,
       poi_type = ''Construction''\<rparr>,
      \<lparr>poi_name = ''Waste Processing - Mavallipura'', poi_lat = 13.181, poi_lon = 77.486,
       poi_type = ''Waste''\<rparr>]"

definition type_colors :: "(string \<times> string) list" where
  "type_colors =
     [(''Industrial'', ''purple''), (''Traffic'', ''red''), (''Construction'', ''orange''),
      (''Waste'', ''brown'')]"

definition pollution_marker :: "area \<Rightarrow> child" where
  "pollution_marker source =
     (let color = table_get type_colors (poi_type source) ''gray''
      in Marker (PFloat (poi_lat source), PFloat (poi_lon source))
           [Lit (poi_name source), Lit ''Type: '', Lit (poi_type source), Lit '' Pollution'']
           [Lit (poi_type source), Lit '' Pollution Source'']
           (Icon color ''warning-sign'' ''fa''))"

definition add_pollution_sources :: "folium_map \<Rightarrow> folium_map" where
  "add_pollution_sources m =
     foldl (\<lambda>m source. add_to (pollution_marker source) m) m pollution_sources"

record dev_zone = poi +
  status :: string

definition development_zones :: "dev_zone list" where
  "development_zones =
     [\<lparr>poi_name = ''Aerospace Park'', poi_lat = 13.140, poi_lon = 77.560,
       status = ''Planned''\<rparr>,
      \<lparr>poi_name = ''Peripheral Ring Road'', poi_lat = 12.850, poi_lon = 77.450,
       status = ''Under Construction''\<rparr>,
      \<lparr>poi_name = ''New Metro Extension'', poi_lat = 12.920, poi_lon = 77.720,
       status = ''Approved''\<rparr>,
      \<lparr>poi_name = ''IT Corridor Extension'', poi_lat = 12.800, poi_lon = 77.700,
       status = ''Proposed''\<rparr>]"

definition status_colors :: "(string \<times> string) list" where
  "status_colors =
     [(''Planned'', ''blue''), (''Under Construction'', ''orange''), (''Approved'', ''green''),
      (''Proposed'', ''purple'')]"

definition development_marker :: "dev_zone \<Rightarrow> child" where
  "development_marker zone =
     (let color = table_get status_colors (status zone) ''gray''
      in CircleMarker (poi_lat zone, poi_lon zone) 15
           [Lit (poi_name zone), Lit ''Status: '', Lit (status zone)]
           [Lit (poi_name zone), Lit '' ('', Lit (status zone), Lit '')'']
           color color 0.3 (Some 3))"

definition add_development_zones :: "folium_map \<Rightarrow> folium_map" where
  "add_development_zones m =
     foldl (\<lambda>m zone. add_to (development_marker zone) m) m development_zones"

subsection \<open>The map types\<close>

text \<open>
  A map type's function adds its layers to the map and may print a note; its value here is
  the map with the layers added and the calls made.
\<close>

definition render_overview_map ::
  "folium_map \<Rightarrow> real \<Rightarrow> real \<Rightarrow> pydict option \<Rightarrow> pydict option
     \<Rightarrow> py_error + folium_map \<times> st_call list" where
  "render_overview_map m lat lon weather_data air_quality_data =
     (case add_weather_markers m weather_data air_quality_data of
        Inl e \<Rightarrow> Inl e
      | Inr m \<Rightarrow>
          let m = add_water_bodies m;
              m = add_air_quality_zones m None;
              m = add_city_landmarks m
          in Inr (m, []))"

definition render_heat_island_map :: "folium_map \<Rightarrow> folium_map \<times> st_call list" where
  "render_heat_island_map m =
     (let m = add_heat_island_layer m None;
          m = add_temperature_stations m
      in (m, [StInfo [Lit (''**Heat Island Map**: Red areas show urban heat islands, '' @
                           ''blue areas show cooling zones.'')]]))"

definition render_water_monitoring_map :: "folium_map \<Rightarrow> folium_map \<times> st_call list" where
  "render_water_monitoring_map m =
     (let m = add_water_bodies m;
          m = add_water_quality_stations m
      in (m, [StInfo [Lit (''**Water Monitoring**: Click on lakes to see health status '' @
                           ''and quality metrics.'')]]))"

definition render_air_quality_map :: "folium_map \<Rightarrow> folium_map \<times> st_call list" where
  "render_air_quality_map m =
     (let m = add_air_quality_zones m None;
          m = add_pollution_sources m
      in (m, [StInfo [Lit (''**Air Quality Map**: Green circles show good air quality, '' @
                           ''red circles show poor air quality.'')]]))"

definition render_urban_growth_map :: "folium_map \<Rightarrow> folium_map \<times> st_call list" where
  "render_urban_growth_map m =
     (let m = add_urban_growth_markers m;
          m = add_development_zones m
      in (m, [StInfo [Lit (''**Urban Growth Map**: Purple markers show IT hubs, '' @
                           ''blue markers show residential areas.'')]]))"

subsection \<open>Map clicks\<close>

definition suggest_nearby_locations :: "real \<Rightarrow> real \<Rightarrow> string \<Rightarrow> st_call list" where
  "suggest_nearby_locations lat lon map_type =
     SidebarSubheader [Lit ''Nearby Points of Interest''] #
     (if map_type = ''water_monitoring''
      then [SidebarWrite [Lit ''* Nearest monitoring station''],
            SidebarWrite [Lit ''* Water treatment facilities''],
            SidebarWrite [Lit ''* Lake restoration projects'']]
      else if map_type = ''air_quality''
      then [SidebarWrite [Lit ''* Air quality monitoring stations''],
            SidebarWrite [Lit ''* Green spaces for better air''],
            SidebarWrite [Lit ''* Low-pollution routes'']]
      else if map_type = ''heat_island''
      then [SidebarWrite [Lit ''* Cooling centers/parks''],
            SidebarWrite [Lit ''* Shaded walking paths''],
            SidebarWrite [Lit ''* Public facilities with AC'']]
      else [SidebarWrite [Lit ''* Weather stations''],
            SidebarWrite [Lit ''* Public amenities''],
            SidebarWrite [Lit ''* Transport hubs'']])"

text \<open>
  The click the map widget reports: absent, or a dictionary of coordinates.  A coordinate
  that is absent or zero is falsy.
\<close>

type_synonym click = "(string \<times> real) list"

definition coord_truthy :: "real option \<Rightarrow> bool" where
  "coord_truthy c = (case c of None \<Rightarrow> False | Some r \<Rightarrow> r \<noteq> 0)"

definition handle_map_click :: "click option \<Rightarrow> string \<Rightarrow> st_call list" where
  "handle_map_click clicked_data map_type =
     (case clicked_data of
        None \<Rightarrow> []
      | Some cd \<Rightarrow>
          if cd = [] then []
          else
            (case (map_of cd ''lat'', map_of cd ''lng'') of
               (Some lat, Some lon) \<Rightarrow>
                 if coord_truthy (Some lat) \<and> coord_truthy (Some lon)
                 then [SidebarSubheader [Lit ''Location Info''],
                       SidebarWrite [Lit ''**Coordinates:** '', Num lat, Lit '', '', Num lon]] @
                      (if map_type = ''heat_island''
                       then let estimated_temp = 28 + (\<bar>lat - 12.972\<bar> + \<bar>lon - 77.594\<bar>) * 50
                            in [SidebarWrite [Lit ''**Estimated Temperature:** '',
                                              Num estimated_temp, Lit ''C'']]
                       else if map_type = ''air_quality''
                       then let urban_factor = min 1.0 ((\<bar>lat - 12.972\<bar> + \<bar>lon - 77.594\<bar>) * 10);
                                estimated_pm25 = 30 + urban_factor * 20
                            in [SidebarWrite [Lit ''**Estimated PM2.5:** '', Num estimated_pm25,
                                              Lit '' ug/m3'']]
                       else []) @
                      suggest_nearby_locations lat lon map_type
                 else []
             | _ \<Rightarrow> []))"

subsection \<open>render_interactive_map\<close>

text \<open>
  The map widget's answer (the last click) is an argument of the model.  The value is the
  calls made, the map's display among them, or the exception raised.
\<close>

definition map_layers ::
  "folium_map \<Rightarrow> real \<Rightarrow> real \<Rightarrow> pydict option \<Rightarrow> pydict option \<Rightarrow> string
     \<Rightarrow> py_error + folium_map \<times> st_call list" where
  "map_layers m lat lon weather_data air_quality_data map_type =
     (if map_type = ''overview''
      then render_overview_map m lat lon weather_data air_quality_data
      else if map_type = ''heat_island'' then Inr (render_heat_island_map m)
      else if map_type = ''water_monitoring'' then Inr (render_water_monitoring_map m)
      else if map_type = ''air_quality'' then Inr (render_air_quality_map m)
      else if map_type = ''urban_growth'' then Inr (render_urban_growth_map m)
      else Inr (m, []))"

definition render_interactive_map ::
  "real \<Rightarrow> real \<Rightarrow> pydict option \<Rightarrow> pydict option \<Rightarrow> string \<Rightarrow> click option
     \<Rightarrow> py_error + st_call list" where
  "render_interactive_map lat lon weather_data air_quality_data map_type last_clicked =
     (let m = create_base_map lat lon 11
      in (case map_layers m lat lon weather_data air_quality_data map_type of
            Inl e \<Rightarrow> Inl e
          | Inr (m, calls) \<Rightarrow>
              Inr (calls @ [StFolium m 700 500] @
                   (if last_clicked \<noteq> None \<and> last_clicked \<noteq> Some []
                    then handle_map_click last_clicked map_type
                    else []))))"

section \<open>Reading the output\<close>

text \<open>The colour, the tooltip and the popup of a marker.\<close>

fun child_color :: "child \<Rightarrow> string" where
  "child_color (Marker loc popup tooltip (Icon color icon_name prefix)) = color"
| "child_color (CircleMarker loc radius popup tooltip color fill opacity weight) = color"
| "child_color (TileLayer t n a ov ct) = []"
| "child_color LayerControl = []"
| "child_color (HeatMap d n r b g) = []"

fun child_tooltip :: "child \<Rightarrow> ftext" where
  "child_tooltip (Marker loc popup tooltip ic) = tooltip"
| "child_tooltip (CircleMarker loc radius popup tooltip color fill opacity weight) = tooltip"
| "child_tooltip (TileLayer t n a ov ct) = []"
| "child_tooltip LayerControl = []"
| "child_tooltip (HeatMap d n r b g) = []"

fun child_popup :: "child \<Rightarrow> ftext" where
  "child_popup (Marker loc popup tooltip ic) = popup"
| "child_popup (CircleMarker loc radius popup tooltip color fill opacity weight) = popup"
| "child_popup (TileLayer t n a ov ct) = []"
| "child_popup LayerControl = []"
| "child_popup (HeatMap d n r b g) = []"

text \<open>A child that is an overlay: a marker, a circle or a heat map.\<close>

fun is_overlay :: "child \<Rightarrow> bool" where
  "is_overlay (Marker loc popup tooltip ic) = True"
| "is_overlay (CircleMarker loc radius popup tooltip color fill opacity weight) = True"
| "is_overlay (HeatMap d n r b g) = True"
| "is_overlay (TileLayer t n a ov ct) = False"
| "is_overlay LayerControl = False"



fun is_map_display :: "st_call \<Rightarrow> bool" where
  "is_map_display (StFolium m w h) = True"
| "is_map_display c = False"


text \<open>A bundle gives the reading \<open>r\<close> for a key: the key holds a number of that value.\<close>

definition reading :: "pydict \<Rightarrow> string \<Rightarrow> real option" where
  "reading d k = (case map_of d k of None \<Rightarrow> None | Some v \<Rightarrow> num_of v)"

section \<open>The citizens dashboard's classifications\<close>

lemmas advice_defs = very_hot_advice_def cool_advice_def pleasant_advice_def
  good_air_advice_def moderate_air_advice_def poor_air_advice_def

lemma citizens_weather_comfort:
  assumes "wd \<noteq> []" and "reading wd ''temperature_2m'' = Some t"
  shows "set (citizens_weather (Some wd)) \<inter> {cool_advice, pleasant_advice, very_hot_advice}
         = {if t > 35 then very_hot_advice else if t < 15 then cool_advice else pleasant_advice}"
  using assms
  by (auto simp: citizens_weather_def reading_def get_default_def Let_def advice_defs
      split: option.splits)

lemma citizens_air_no_comfort:
  "set (citizens_air aq) \<inter> {cool_advice, pleasant_advice, very_hot_advice} = {}"
  by (auto simp: citizens_air_def Let_def advice_defs split: option.splits)

lemma dashboard_comfort:
  "set (render_citizens_dashboard wd aq) \<inter> {cool_advice, pleasant_advice, very_hot_advice}
   = set (citizens_weather wd) \<inter> {cool_advice, pleasant_advice, very_hot_advice}"
  using citizens_air_no_comfort[of aq]
  unfolding render_citizens_dashboard_def Let_def
  by (auto simp: advice_defs)

lemma citizens_air_advisory:
  assumes "aq \<noteq> []" and "reading aq ''pm2_5'' = Some p"
  shows "set (citizens_air (Some aq)) \<inter> {good_air_advice, moderate_air_advice, poor_air_advice}
         = {if p \<le> 25 then good_air_advice else if p \<le> 50 then moderate_air_advice
            else poor_air_advice}"
  using assms
  by (auto simp: citizens_air_def reading_def get_default_def Let_def advice_defs
      split: option.splits)

lemma citizens_weather_no_advisory:
  "set (citizens_weather wd) \<inter> {good_air_advice, moderate_air_advice, poor_air_advice} = {}"
  by (auto simp: citizens_weather_def Let_def advice_defs split: option.splits)

lemma dashboard_air_advisory:
  "set (render_citizens_dashboard wd aq) \<inter> {good_air_advice, moderate_air_advice, poor_air_advice}
   = set (citizens_air aq) \<inter> {good_air_advice, moderate_air_advice, poor_air_advice}"
  using citizens_weather_no_advisory[of wd]
  unfolding render_citizens_dashboard_def Let_def
  by (auto simp: advice_defs)

text \<open>
  C2.  When the weather bundle holds a number \<open>t\<close> as its temperature, the citizens
  dashboard prints exactly one of the three comfort advisories: the cool one when \<open>t < 15\<close>,
  the pleasant one when \<open>15 \<le> t \<le> 35\<close> (both ends included), the very-hot one when
  \<open>t > 35\<close>.
\<close>

theorem citizens_temperature_classification:
  assumes "wd \<noteq> []" and "reading wd ''temperature_2m'' = Some t"
  shows "(t < 15 \<longrightarrow>
            set (render_citizens_dashboard (Some wd) aq)
              \<inter> {cool_advice, pleasant_advice, very_hot_advice} = {cool_advice})
       \<and> (15 \<le> t \<and> t \<le> 35 \<longrightarrow>
            set (render_citizens_dashboard (Some wd) aq)
              \<inter> {cool_advice, pleasant_advice, very_hot_advice} = {pleasant_advice})
       \<and> (t > 35 \<longrightarrow>
            set (render_citizens_dashboard (Some wd) aq)
              \<inter> {cool_advice, pleasant_advice, very_hot_advice} = {very_hot_advice})"
  using citizens_weather_comfort[OF assms] by (auto simp: dashboard_comfort)

theorem citizens_temperature_classification_witness:
  "set (render_citizens_dashboard (Some [(''temperature_2m'', PInt 15)]) None)
     \<inter> {cool_advice, pleasant_advice, very_hot_advice} = {pleasant_advice}
   \<and> set (render_citizens_dashboard (Some [(''temperature_2m'', PFloat 35)]) None)
     \<inter> {cool_advice, pleasant_advice, very_hot_advice} = {pleasant_advice}
   \<and> set (render_citizens_dashboard (Some [(''temperature_2m'', PFloat 14.9)]) None)
     \<inter> {cool_advice, pleasant_advice, very_hot_advice} = {cool_advice}
   \<and> set (render_citizens_dashboard (Some [(''temperature_2m'', PInt 36)]) None)
     \<inter> {cool_advice, pleasant_advice, very_hot_advice} = {very_hot_advice}"
  using citizens_temperature_classification
          [of "[(''temperature_2m'', PInt 15)]" 15 None]
        citizens_temperature_classification
          [of "[(''temperature_2m'', PFloat 35)]" 35 None]
        citizens_temperature_classification
          [of "[(''temperature_2m'', PFloat 14.9)]" "14.9" None]
        citizens_temperature_classification
          [of "[(''temperature_2m'', PInt 36)]" 36 None]
  by (simp add: reading_def)

section \<open>The markers' classifications\<close>

lemma zone_marker_color: "child_color (zone_marker s) = fst (zone_status (pm25 s))"
  by (simp add: zone_marker_def split: prod.splits)

lemma zone_marker_tooltip:
  "child_tooltip (zone_marker s) = [Lit (poi_name s), Lit '': '', Lit (snd (zone_status (pm25 s)))]"
  by (simp add: zone_marker_def split: prod.splits)

lemma foldl_add_to: "children (foldl (\<lambda>m x. add_to (f x) m) m xs) = children m @ map f xs"
  by (induction xs arbitrary: m) (simp_all add: add_to_def)

text \<open>
  C3.  Under the general rule a PM2.5 value \<open>p\<close> is Good when \<open>p \<le> 25\<close>, Moderate when
  \<open>25 < p \<le> 50\<close>, and Poor (Unhealthy on the map) when \<open>p > 50\<close>: the citizens
  dashboard prints exactly the advisory of that class for a numeric reading, and a station's
  zone marker takes that class's colour and status.  In particular 25 is Good, 26 and 50 are
  Moderate, and 51 is Poor.
\<close>

theorem pm25_general_classification:
  "(\<forall>wd aq p. aq \<noteq> [] \<and> reading aq ''pm2_5'' = Some p \<longrightarrow>
      set (render_citizens_dashboard wd (Some aq))
        \<inter> {good_air_advice, moderate_air_advice, poor_air_advice}
      = {if p \<le> 25 then good_air_advice else if p \<le> 50 then moderate_air_advice
         else poor_air_advice})
   \<and> (\<forall>s. child_color (zone_marker s)
            = (if pm25 s \<le> 25 then ''green'' else if pm25 s \<le> 50 then ''orange'' else ''red'')
          \<and> child_tooltip (zone_marker s)
            = [Lit (poi_name s), Lit '': '',
               Lit (if pm25 s \<le> 25 then ''Good'' else if pm25 s \<le> 50 then ''Moderate''
                    else ''Unhealthy'')])
   \<and> (\<forall>m aq. children (add_air_quality_zones m aq) = children m @ map zone_marker stations)
   \<and> map (snd \<circ> zone_status) [25, 26, 50, 51] = [''Good'', ''Moderate'', ''Moderate'', ''Unhealthy'']
   \<and> map (\<lambda>v. set (render_citizens_dashboard None (Some [(''pm2_5'', PInt v)]))
                 \<inter> {good_air_advice, moderate_air_advice, poor_air_advice}) [25, 26, 50, 51]
      = [{good_air_advice}, {moderate_air_advice}, {moderate_air_advice}, {poor_air_advice}]"
proof (intro conjI allI impI)
  fix wd aq p
  assume "aq \<noteq> [] \<and> reading aq ''pm2_5'' = Some p"
  then show "set (render_citizens_dashboard wd (Some aq))
        \<inter> {good_air_advice, moderate_air_advice, poor_air_advice}
      = {if p \<le> 25 then good_air_advice else if p \<le> 50 then moderate_air_advice
         else poor_air_advice}"
    using citizens_air_advisory[of aq p] by (simp add: dashboard_air_advisory)
next
  fix s
  show "child_color (zone_marker s)
            = (if pm25 s \<le> 25 then ''green'' else if pm25 s \<le> 50 then ''orange'' else ''red'')"
    by (simp add: zone_marker_color zone_status_def)
  show "child_tooltip (zone_marker s)
            = [Lit (poi_name s), Lit '': '',
               Lit (if pm25 s \<le> 25 then ''Good'' else if pm25 s \<le> 50 then ''Moderate''
                    else ''Unhealthy'')]"
    by (simp add: zone_marker_tooltip zone_status_def)
next
  fix m aq
  show "children (add_air_quality_zones m aq) = children m @ map zone_marker stations"
    by (simp add: add_air_quality_zones_def foldl_add_to)
next
  show "map (snd \<circ> zone_status) [25, 26, 50, 51] = [''Good'', ''Moderate'', ''Moderate'', ''Unhealthy'']"
    by (simp add: zone_status_def)
next
  have a: "\<And>v. set (render_citizens_dashboard None (Some [(''pm2_5'', PInt v)]))
                 \<inter> {good_air_advice, moderate_air_advice, poor_air_advice}
        = {if real_of_int v \<le> 25 then good_air_advice else if real_of_int v \<le> 50 then moderate_air_advice
         else poor_air_advice}"
    by (subst dashboard_air_advisory, rule citizens_air_advisory) (simp_all add: reading_def)
  show "map (\<lambda>v. set (render_citizens_dashboard None (Some [(''pm2_5'', PInt v)]))
                 \<inter> {good_air_advice, moderate_air_advice, poor_air_advice}) [25, 26, 50, 51]
      = [{good_air_advice}, {moderate_air_advice}, {moderate_air_advice}, {poor_air_advice}]"
    by (simp add: a)
qed

theorem pm25_general_classification_witness:
  "set (render_citizens_dashboard None (Some [(''pm10'', PInt 80), (''pm2_5'', PFloat 25.5)]))
     \<inter> {good_air_advice, moderate_air_advice, poor_air_advice} = {moderate_air_advice}"
  using pm25_general_classification
          [THEN conjunct1, rule_format,
           of "[(''pm10'', PInt 80), (''pm2_5'', PFloat 25.5)]" "25.5" None]
  by (simp add: reading_def)

lemma lake_marker_color: "child_color (lake_marker l) = fst (lake_status (health l))"
  by (simp add: lake_marker_def split: prod.splits)

lemma lake_marker_popup:
  "child_popup (lake_marker l) =
     [Lit (poi_name l), Lit ''Health Score: '', Num (health l), Lit ''/100'', Lit ''Status: '',
      Lit (fst (lake_status (health l))), Lit (snd (lake_status (health l)))]"
  by (simp add: lake_marker_def split: prod.splits)

lemma water_board_table:
  "StDataframe (Styled lakes_data
       [(''Health Score'', map (\<lambda>v. color_health_score (of_int v)) health_scores)])
     \<in> set (render_water_board_dashboard now wd nd)"
  by (simp add: render_water_board_dashboard_def)

text \<open>
  C4.  A lake health score \<open>h\<close> is Good when \<open>h \<ge> 70\<close>, Fair when \<open>50 \<le> h < 70\<close> and
  Poor when \<open>h < 50\<close>, in the water board's table colouring (light green, gold, light pink)
  and in the lake markers of the map (green, orange, red) alike; 45 is Poor, 78 is Good and
  the boundary value 50 is Fair.
\<close>

theorem lake_health_classification:
  "(\<forall>h. (h \<ge> 70 \<longrightarrow> color_health_score h = ''background-color: #90EE90'')
        \<and> (50 \<le> h \<and> h < 70 \<longrightarrow> color_health_score h = ''background-color: #FFD700'')
        \<and> (h < 50 \<longrightarrow> color_health_score h = ''background-color: #FFB6C1''))
   \<and> (\<forall>l. (health l \<ge> 70 \<longrightarrow>
              child_color (lake_marker l) = ''green''
              \<and> last (child_popup (lake_marker l)) = Lit ''Good'')
          \<and> (50 \<le> health l \<and> health l < 70 \<longrightarrow>
              child_color (lake_marker l) = ''orange''
              \<and> last (child_popup (lake_marker l)) = Lit ''Fair'')
          \<and> (health l < 50 \<longrightarrow>
              child_color (lake_marker l) = ''red''
              \<and> last (child_popup (lake_marker l)) = Lit ''Poor''))
   \<and> map (snd \<circ> lake_status) [45, 78, 50] = [''Poor'', ''Good'', ''Fair'']
   \<and> map color_health_score [45, 78, 50]
      = [''background-color: #FFB6C1'', ''background-color: #90EE90'',
         ''background-color: #FFD700'']
   \<and> (\<forall>m. children (add_water_bodies m) = children m @ map lake_marker lakes)
   \<and> (\<forall>now wd nd.
         StDataframe (Styled lakes_data
           [(''Health Score'', map (\<lambda>v. color_health_score (of_int v)) health_scores)])
         \<in> set (render_water_board_dashboard now wd nd))"
proof (intro conjI allI)
  fix h :: real
  show "h \<ge> 70 \<longrightarrow> color_health_score h = ''background-color: #90EE90''"
    and "50 \<le> h \<and> h < 70 \<longrightarrow> color_health_score h = ''background-color: #FFD700''"
    and "h < 50 \<longrightarrow> color_health_score h = ''background-color: #FFB6C1''"
    by (simp_all add: color_health_score_def)
next
  fix l :: lake
  show "health l \<ge> 70 \<longrightarrow>
              child_color (lake_marker l) = ''green''
              \<and> last (child_popup (lake_marker l)) = Lit ''Good''"
    and "50 \<le> health l \<and> health l < 70 \<longrightarrow>
              child_color (lake_marker l) = ''orange''
              \<and> last (child_popup (lake_marker l)) = Lit ''Fair''"
    and "health l < 50 \<longrightarrow>
              child_color (lake_marker l) = ''red''
              \<and> last (child_popup (lake_marker l)) = Lit ''Poor''"
    by (simp_all add: lake_marker_color lake_marker_popup lake_status_def)
next
  show "map (snd \<circ> lake_status) [45, 78, 50] = [''Poor'', ''Good'', ''Fair'']"
    by (simp add: lake_status_def)
  show "map color_health_score [45, 78, 50]
      = [''background-color: #FFB6C1'', ''background-color: #90EE90'',
         ''background-color: #FFD700'']"
    by (simp add: color_health_score_def)
next
  fix m show "children (add_water_bodies m) = children m @ map lake_marker lakes"
    by (simp add: add_water_bodies_def foldl_add_to)
next
  fix now wd nd
  show "StDataframe (Styled lakes_data
           [(''Health Score'', map (\<lambda>v. color_health_score (of_int v)) health_scores)])
         \<in> set (render_water_board_dashboard now wd nd)"
    by (rule water_board_table)
qed

theorem lake_health_classification_witness:
  "color_health_score 70 = ''background-color: #90EE90''
   \<and> color_health_score 69.5 = ''background-color: #FFD700''
   \<and> color_health_score 49 = ''background-color: #FFB6C1''
   \<and> map (\<lambda>l. (child_color (lake_marker l), last (child_popup (lake_marker l)))) lakes
      = [(''red'', Lit ''Poor''), (''green'', Lit ''Good''), (''green'', Lit ''Good''),
         (''orange'', Lit ''Fair''), (''orange'', Lit ''Fair'')]"
proof -
  note c = lake_health_classification
  note h = c[THEN conjunct1, rule_format]
  note l = c[THEN conjunct2, THEN conjunct1, rule_format]
  show ?thesis
    using h[of 70] h[of "69.5"] h[of 49]
      l[of "lakes ! 0"] l[of "lakes ! 1"] l[of "lakes ! 2"] l[of "lakes ! 3"] l[of "lakes ! 4"]
    by (simp add: lakes_def)
qed

lemma air_quality_marker_class:
  assumes "reading aq ''pm2_5'' = Some p" "map_of aq ''location'' = Some (PDict loc)"
    "map_of loc ''lat'' = Some la" "map_of loc ''lon'' = Some lo"
  shows "\<exists>c. air_quality_marker (Some aq) = Inr [c]
            \<and> child_color c = fst (marker_quality p)
            \<and> child_tooltip c = [Lit ''Air Quality: '', Lit (snd (marker_quality p))]"
proof -
  have "aq \<noteq> []" "loc \<noteq> []" using assms by auto
  then show ?thesis using assms
    by (auto simp: air_quality_marker_def reading_def get_none_def get_default_def as_number_def
        subscript_def Let_def split: option.splits prod.splits)
qed

text \<open>
  C5.  The air-quality marker of the overview map classifies a numeric PM2.5 reading \<open>p\<close>
  by its own rule: Good (green) when \<open>p \<le> 12\<close>, Moderate (orange) when \<open>12 < p \<le> 35\<close>,
  Unhealthy (red) when \<open>p > 35\<close>.  The rule stands beside the general one and differs from
  it: 20 is Moderate here and Good there, 40 is Unhealthy here and Moderate there.
\<close>

theorem station_marker_classification:
  assumes "reading aq ''pm2_5'' = Some p" and "map_of aq ''location'' = Some (PDict loc)"
    and "map_of loc ''lat'' = Some la" and "map_of loc ''lon'' = Some lo"
  shows "(\<exists>c. add_weather_markers m None (Some aq) = Inr (add_to c m)
            \<and> child_color c
                = (if p \<le> 12 then ''green'' else if p \<le> 35 then ''orange'' else ''red'')
            \<and> child_tooltip c
                = [Lit ''Air Quality: '',
                   Lit (if p \<le> 12 then ''Good'' else if p \<le> 35 then ''Moderate''
                        else ''Unhealthy'')])
       \<and> map (snd \<circ> marker_quality) [12, 20, 35, 40]
           = [''Good'', ''Moderate'', ''Moderate'', ''Unhealthy'']
       \<and> map (snd \<circ> zone_status) [12, 20, 35, 40]
           = [''Good'', ''Good'', ''Moderate'', ''Moderate'']"
proof -
  obtain c where c: "air_quality_marker (Some aq) = Inr [c]"
    "child_color c = fst (marker_quality p)"
    "child_tooltip c = [Lit ''Air Quality: '', Lit (snd (marker_quality p))]"
    using air_quality_marker_class[OF assms] by blast
  have "add_weather_markers m None (Some aq) = Inr (add_to c m)"
    by (simp add: add_weather_markers_def weather_marker_def c)
  then show ?thesis using c(2,3)
    by (auto simp: marker_quality_def zone_status_def)
qed

theorem station_marker_classification_witness:
  "\<exists>c. add_weather_markers (create_base_map 12.97 77.59 11) None
          (Some [(''location'', PDict [(''lat'', PFloat 12.97), (''lon'', PFloat 77.59)]),
                 (''pm2_5'', PInt 20)])
        = Inr (add_to c (create_base_map 12.97 77.59 11))
      \<and> child_color c = ''orange''
      \<and> child_tooltip c = [Lit ''Air Quality: '', Lit ''Moderate'']"
  using station_marker_classification
          [of "[(''location'', PDict [(''lat'', PFloat 12.97), (''lon'', PFloat 77.59)]),
                (''pm2_5'', PInt 20)]"
              20 "[(''lat'', PFloat 12.97), (''lon'', PFloat 77.59)]"
              "PFloat 12.97" "PFloat 77.59" "create_base_map 12.97 77.59 11"]
  by (simp add: reading_def)

section \<open>Values on a boundary\<close>

text \<open>
  At the boundary value 25 the air-quality panel prints the Good advisory and not the
  Moderate one, at 35 the weather panel prints the pleasant advisory and not the very-hot
  one, and a lake of health 50 is Fair: the milder of the two neighbouring classes each time.
\<close>

theorem boundary_stricter_counterexample:
  "good_air_advice \<in> set (render_citizens_dashboard None (Some [(''pm2_5'', PInt 25)]))
   \<and> moderate_air_advice \<notin> set (render_citizens_dashboard None (Some [(''pm2_5'', PInt 25)]))
   \<and> pleasant_advice \<in> set (render_citizens_dashboard (Some [(''temperature_2m'', PInt 35)]) None)
   \<and> very_hot_advice \<notin> set (render_citizens_dashboard (Some [(''temperature_2m'', PInt 35)]) None)
   \<and> lake_status 50 = (''orange'', ''Fair'')"
  by (simp add: render_citizens_dashboard_def citizens_weather_def citizens_air_def
      heat_recommendations_def air_recommendations_def get_none_def get_default_def
      advice_defs lake_status_def)

text \<open>
  C6, amended.  A value lying exactly on a boundary is given the milder of the two
  neighbouring classes: temperature 15 and 35 are pleasant, PM2.5 25 is Good and 50 is
  Moderate under the general rule, 12 is Good and 35 is Moderate under the marker's rule,
  and lake health 50 is Fair and 70 is Good.
\<close>

theorem boundary_values_classification:
  "(\<forall>wd aq t. wd \<noteq> [] \<and> reading wd ''temperature_2m'' = Some t \<and> (t = 15 \<or> t = 35) \<longrightarrow>
      set (render_citizens_dashboard (Some wd) aq)
        \<inter> {cool_advice, pleasant_advice, very_hot_advice} = {pleasant_advice})
   \<and> (\<forall>wd aq p. aq \<noteq> [] \<and> reading aq ''pm2_5'' = Some p \<longrightarrow>
         (p = 25 \<longrightarrow>
            set (render_citizens_dashboard wd (Some aq))
              \<inter> {good_air_advice, moderate_air_advice, poor_air_advice} = {good_air_advice})
       \<and> (p = 50 \<longrightarrow>
            set (render_citizens_dashboard wd (Some aq))
              \<inter> {good_air_advice, moderate_air_advice, poor_air_advice}
            = {moderate_air_advice}))
   \<and> zone_status 25 = (''green'', ''Good'') \<and> zone_status 50 = (''orange'', ''Moderate'')
   \<and> marker_quality 12 = (''green'', ''Good'') \<and> marker_quality 35 = (''orange'', ''Moderate'')
   \<and> lake_status 50 = (''orange'', ''Fair'') \<and> lake_status 70 = (''green'', ''Good'')
   \<and> color_health_score 50 = ''background-color: #FFD700''
   \<and> color_health_score 70 = ''background-color: #90EE90''"
proof (intro conjI allI impI)
  fix wd aq t
  assume "wd \<noteq> [] \<and> reading wd ''temperature_2m'' = Some t \<and> (t = 15 \<or> t = 35)"
  then show "set (render_citizens_dashboard (Some wd) aq)
        \<inter> {cool_advice, pleasant_advice, very_hot_advice} = {pleasant_advice}"
    using citizens_weather_comfort[of wd t] by (auto simp: dashboard_comfort)
next
  fix wd aq p
  assume a: "aq \<noteq> [] \<and> reading aq ''pm2_5'' = Some p"
  { assume "p = 25"
    then show "set (render_citizens_dashboard wd (Some aq))
              \<inter> {good_air_advice, moderate_air_advice, poor_air_advice} = {good_air_advice}"
      using a citizens_air_advisory[of aq p] by (simp add: dashboard_air_advisory) }
  { assume "p = 50"
    then show "set (render_citizens_dashboard wd (Some aq))
              \<inter> {good_air_advice, moderate_air_advice, poor_air_advice}
            = {moderate_air_advice}"
      using a citizens_air_advisory[of aq p] by (simp add: dashboard_air_advisory) }
qed (simp_all add: zone_status_def marker_quality_def lake_status_def color_health_score_def)

theorem boundary_values_classification_witness:
  "set (render_citizens_dashboard (Some [(''temperature_2m'', PInt 15)]) None)
        \<inter> {cool_advice, pleasant_advice, very_hot_advice} = {pleasant_advice}
   \<and> set (render_citizens_dashboard None (Some [(''pm2_5'', PFloat 25)]))
        \<inter> {good_air_advice, moderate_air_advice, poor_air_advice} = {good_air_advice}
   \<and> set (render_citizens_dashboard None (Some [(''pm2_5'', PInt 50)]))
        \<inter> {good_air_advice, moderate_air_advice, poor_air_advice} = {moderate_air_advice}"
proof -
  note b = boundary_values_classification
  note t = b[THEN conjunct1, rule_format]
  note p = b[THEN conjunct2, THEN conjunct1, rule_format]
  show ?thesis
    using t[of "[(''temperature_2m'', PInt 15)]" 15 None]
      p[of "[(''pm2_5'', PFloat 25)]" 25 None, THEN conjunct1]
      p[of "[(''pm2_5'', PInt 50)]" 50 None, THEN conjunct2]
    by (simp add: reading_def)
qed

section \<open>Missing readings\<close>









section \<open>The clock\<close>

lemma date_range_W_first:
  "start + (3 - start) mod 7 \<le> end_day \<Longrightarrow>
     hd (date_range_W start end_day) = start + (3 - start) mod 7"
  by (simp add: date_range_W_def Let_def hd_map upt_conv_Cons)

lemma lake_trends_dates:
  "traces (lake_trends now) ! 0 =
     Scatter (map AxDate (date_range_W (now - 90) now))
       (map of_int (map (\<lambda>i. 45 + (int i mod 5) - 2) [0 ..< length (date_range_W (now - 90) now)]))
       ''Bellandur Lake'' ''red''"
  by (simp add: lake_trends_def Let_def)

text \<open>
  The water board's view on day 0 and on day 1000, with the same arguments, differ: the
  dates of the trend chart are the Sundays of the ninety days before the clock's reading.
\<close>

theorem clock_dependence_counterexample:
  "render_dashboard 0 ''BWSSB (Water Board)'' None None None
   \<noteq> render_dashboard 1000 ''BWSSB (Water Board)'' None None None"
proof
  assume "render_dashboard 0 ''BWSSB (Water Board)'' None None None
   = render_dashboard 1000 ''BWSSB (Water Board)'' None None None"
  then have "lake_trends 0 = lake_trends 1000"
    by (simp add: render_dashboard_def stakeholder_view_def render_water_board_dashboard_def)
  then have "traces (lake_trends 0) ! 0 = traces (lake_trends 1000) ! 0" by simp
  then have "map AxDate (date_range_W (0 - 90) 0) = map AxDate (date_range_W (1000 - 90) 1000)"
    unfolding lake_trends_dates by simp
  then have "date_range_W (0 - 90) 0 = date_range_W (1000 - 90) 1000"
    by (simp add: inj_on_def map_eq_conv[symmetric] inj_map_eq_map)
  then have "hd (date_range_W (0 - 90) 0) = hd (date_range_W (1000 - 90) 1000)" by simp
  then show False
    by (simp add: date_range_W_first)
qed

text \<open>
  C7, amended.  For every stakeholder but the water board, the view is a function of the
  stakeholder and the bundles alone: the clock's reading does not change it.  The water
  board's view depends on the clock as well, through the weekly dates of its trend chart
  and through nothing else.
\<close>

theorem views_clock_independence:
  "(\<forall>now now' stakeholder wd aq nd.
      stakeholder \<noteq> ''BWSSB (Water Board)'' \<longrightarrow>
      render_dashboard now stakeholder wd aq nd = render_dashboard now' stakeholder wd aq nd)
   \<and> (\<forall>now now' wd aq nd.
        date_range_W (now - 90) now = date_range_W (now' - 90) now' \<longrightarrow>
        render_dashboard now ''BWSSB (Water Board)'' wd aq nd
        = render_dashboard now' ''BWSSB (Water Board)'' wd aq nd)"
  by (simp add: render_dashboard_def stakeholder_view_def render_water_board_dashboard_def
      lake_trends_def)

theorem views_clock_independence_witness:
  "render_dashboard 0 ''Citizens'' None None None = render_dashboard 1000 ''Citizens'' None None None
   \<and> render_dashboard 0 ''BESCOM (Electricity)'' (Some [(''temperature_2m'', PInt 31)]) None None
     = render_dashboard 1000 ''BESCOM (Electricity)'' (Some [(''temperature_2m'', PInt 31)]) None None
   \<and> render_dashboard 0 ''BWSSB (Water Board)'' None None None
     = render_dashboard 1 ''BWSSB (Water Board)'' None None None"
proof -
  note v = views_clock_independence
  have d: "date_range_W (0 - 90) 0 = date_range_W (1 - 90) 1"
    by (simp add: date_range_W_def)
  show ?thesis
    using v[THEN conjunct1, rule_format,
            where stakeholder = "''Citizens''" and now = 0 and now' = 1000]
      v[THEN conjunct1, rule_format,
            where stakeholder = "''BESCOM (Electricity)''" and now = 0 and now' = 1000]
      v[THEN conjunct2, rule_format, where now = 0 and now' = 1] d
    by simp
qed

section \<open>The citizens' view\<close>









section \<open>The demand forecast\<close>










section \<open>Map types outside the fixed set\<close>

text \<open>
  C10.  For a map type outside overview, heat_island, water_monitoring, air_quality and
  urban_growth, the interactive map raises nothing: it displays the base map, whose children
  are the two tile layers and the layer control and no overlay, and then handles the click,
  if any.
\<close>

theorem unknown_map_type_base_map:
  assumes "map_type \<notin> {''overview'', ''heat_island'', ''water_monitoring'', ''air_quality'',
                        ''urban_growth''}"
  shows "render_interactive_map lat lon wd aq map_type last_clicked
           = Inr (StFolium (create_base_map lat lon 11) 700 500
                  # handle_map_click last_clicked map_type)
       \<and> children (create_base_map lat lon 11)
           = [TileLayer
                (''https://server.arcgisonline.com/ArcGIS/rest/services/World_Imagery/'' @
                 ''MapServer/tile/{z}/{y}/{x}'')
                ''Satellite'' (Some ''Esri'') False True,
              TileLayer ''CartoDB positron'' ''Light Map'' None False True,
              LayerControl]
       \<and> \<not> list_ex is_overlay (children (create_base_map lat lon 11))
       \<and> \<not> list_ex is_map_display (handle_map_click last_clicked map_type)"
proof -
  have c: "children (create_base_map lat lon 11)
           = [TileLayer
                (''https://server.arcgisonline.com/ArcGIS/rest/services/World_Imagery/'' @
                 ''MapServer/tile/{z}/{y}/{x}'')
                ''Satellite'' (Some ''Esri'') False True,
              TileLayer ''CartoDB positron'' ''Light Map'' None False True,
              LayerControl]"
    by (simp add: create_base_map_def add_to_def)
  have l: "map_layers (create_base_map lat lon 11) lat lon wd aq map_type
           = Inr (create_base_map lat lon 11, [])"
    using assms by (simp add: map_layers_def)
  have h: "\<not> list_ex is_map_display (handle_map_click last_clicked map_type)"
    by (auto simp: handle_map_click_def suggest_nearby_locations_def Let_def
        split: option.splits)
  have "handle_map_click None map_type = []" "handle_map_click (Some []) map_type = []"
    by (simp_all add: handle_map_click_def)
  then have "render_interactive_map lat lon wd aq map_type last_clicked
           = Inr (StFolium (create_base_map lat lon 11) 700 500
                  # handle_map_click last_clicked map_type)"
    by (auto simp: render_interactive_map_def Let_def l)
  then show ?thesis using c h by simp
qed

theorem unknown_map_type_base_map_witness:
  "render_interactive_map 12.97 77.59 None None ''satellite'' None
     = Inr [StFolium (create_base_map 12.97 77.59 11) 700 500]
   \<and> \<not> list_ex is_overlay (children (create_base_map 12.97 77.59 11))"
  using unknown_map_type_base_map[of "''satellite''" "12.97" "77.59" None None None]
  by (simp add: handle_map_click_def)

end
